theory Spec2Isabelle
  imports Complex_Main
begin

section \<open>Strings\<close>

text \<open>
  A Python \<open>str\<close> and a JavaScript string are modelled as a \<open>string\<close>, the UTF-8 bytes
  of the text. The only character beyond ASCII that the programs name is the Unicode minus
  sign U+2212; its three bytes are \<open>unicode_minus\<close>. White space, letter case and digits
  are the ASCII ones: the model agrees with the programs on every text whose characters
  beyond ASCII are neither white space, nor cased letters, nor digits.
\<close>

definition unicode_minus :: string where
  "unicode_minus = [CHR 0xE2, CHR 0x88, CHR 0x92]"


text \<open>\<open>str.isspace\<close> on the ASCII range: TAB, LF, VT, FF, CR, the separators 0x1C to 0x1F and
  the space. \<open>str.strip()\<close>, \<open>float()\<close> and the regular expression \<open>\s\<close> all use it.\<close>

definition py_isspace :: "char \<Rightarrow> bool" where
  "py_isspace c = (c \<in> set [CHR 0x09, CHR 0x0A, CHR 0x0B, CHR 0x0C, CHR 0x0D,
                           CHR 0x1C, CHR 0x1D, CHR 0x1E, CHR 0x1F, CHR '' ''])"

definition lower_char :: "char \<Rightarrow> char" where
  "lower_char c =
     (case map_of (zip ''ABCDEFGHIJKLMNOPQRSTUVWXYZ'' ''abcdefghijklmnopqrstuvwxyz'') c of
        Some d \<Rightarrow> d
      | None \<Rightarrow> c)"

definition upper_char :: "char \<Rightarrow> char" where
  "upper_char c =
     (case map_of (zip ''abcdefghijklmnopqrstuvwxyz'' ''ABCDEFGHIJKLMNOPQRSTUVWXYZ'') c of
        Some d \<Rightarrow> d
      | None \<Rightarrow> c)"

definition py_lower :: "string \<Rightarrow> string" where
  "py_lower s = map lower_char s"

definition py_upper :: "string \<Rightarrow> string" where
  "py_upper s = map upper_char s"

definition py_lstrip :: "string \<Rightarrow> string" where
  "py_lstrip s = dropWhile py_isspace s"

definition py_rstrip :: "string \<Rightarrow> string" where
  "py_rstrip s = rev (dropWhile py_isspace (rev s))"

definition py_strip :: "string \<Rightarrow> string" where
  "py_strip s = py_rstrip (py_lstrip s)"

text \<open>\<open>starts_with s x\<close>: the text \<open>s\<close> begins with \<open>x\<close>.\<close>

definition starts_with :: "string \<Rightarrow> string \<Rightarrow> bool" where
  "starts_with s x = (take (length x) s = x)"

text \<open>\<open>contains s x\<close> is Python's \<open>x in s\<close> and JavaScript's \<open>s.includes(x)\<close>.\<close>

fun contains :: "string \<Rightarrow> string \<Rightarrow> bool" where
  "contains [] x = (x = [])"
| "contains (c # cs) x = (starts_with (c # cs) x \<or> contains cs x)"

text \<open>\<open>s.replace(old, new)\<close>: every occurrence of \<open>old\<close>, found from the left and without
  overlap, becomes \<open>new\<close>. An empty \<open>old\<close> matches between all characters.\<close>

function py_replace :: "string \<Rightarrow> string \<Rightarrow> string \<Rightarrow> string" where
  "py_replace old new [] = (if old = [] then new else [])"
| "py_replace old new (c # cs) =
     (if old = [] then new @ c # py_replace old new cs
      else if starts_with (c # cs) old then new @ py_replace old new (drop (length old) (c # cs))
      else c # py_replace old new cs)"
  by pat_completeness auto
termination
  by (relation "measure (\<lambda>(old, new, s). length s)") auto

text \<open>What \<open>s.replace(",", ".")\<close> does to each character of \<open>s\<close>.\<close>

definition comma_point :: "char \<Rightarrow> char" where
  "comma_point c = (if c = CHR '','' then CHR ''.'' else c)"

section \<open>Floats\<close>

text \<open>
  A binary64 float is modelled by its kind and, when finite, by the exact rational that the
  decimal text or the integer denotes: rounding to 53 bits, the overflow of a large finite
  numeral to an infinity and the sign of zero are outside the model.
\<close>

datatype pyfloat = Fin rat | PInf | NInf | NaN

definition is_finite :: "pyfloat \<Rightarrow> bool" where
  "is_finite x = (case x of Fin q \<Rightarrow> True | _ \<Rightarrow> False)"

text \<open>The comparison \<open>x < y\<close> of two floats; every comparison with a NaN is false.\<close>

fun float_lt :: "pyfloat \<Rightarrow> pyfloat \<Rightarrow> bool" where
  "float_lt NaN y = False"
| "float_lt x NaN = False"
| "float_lt PInf y = False"
| "float_lt x NInf = False"
| "float_lt NInf y = True"
| "float_lt x PInf = True"
| "float_lt (Fin a) (Fin b) = (a < b)"

fun float_abs :: "pyfloat \<Rightarrow> pyfloat" where
  "float_abs (Fin a) = Fin \<bar>a\<bar>"
| "float_abs PInf = PInf"
| "float_abs NInf = PInf"
| "float_abs NaN = NaN"

subsection \<open>The built-in \<open>float(str)\<close>\<close>

text \<open>
  The grammar of the Python language reference, matched without regard to letter case
  after the surrounding white space is removed:
  \<^verbatim>\<open>
  digitpart   ::= digit (["_"] digit)*
  number      ::= [digitpart] "." digitpart | digitpart ["."]
  floatnumber ::= number [("e" | "E") ["+" | "-"] digitpart]
  floatvalue  ::= ["+" | "-"] (floatnumber | "inf" | "infinity" | "nan")
  \<close>
  \<open>None\<close> stands for the \<open>ValueError\<close> that \<open>float\<close> raises on any other text.
\<close>

definition is_digit :: "char \<Rightarrow> bool" where
  "is_digit c = (c \<in> set ''0123456789'')"

definition digit_val :: "char \<Rightarrow> nat" where
  "digit_val c = (case map_of (zip ''0123456789'' [0, 1, 2, 3, 4, 5, 6, 7, 8, 9]) c of
                    Some d \<Rightarrow> d
                  | None \<Rightarrow> 0)"

fun digitpart :: "string \<Rightarrow> bool" where
  "digitpart [] = False"
| "digitpart [c] = is_digit c"
| "digitpart (c # d # cs) =
     (is_digit c \<and> (if d = CHR ''_'' then digitpart cs else digitpart (d # cs)))"

definition digits_nat :: "string \<Rightarrow> nat" where
  "digits_nat s = foldl (\<lambda>n c. 10 * n + digit_val c) 0 (filter is_digit s)"

definition parse_exponent :: "string \<Rightarrow> int option" where
  "parse_exponent s =
     (case s of
        [] \<Rightarrow> None
      | c # cs \<Rightarrow>
          if c = CHR ''+'' then (if digitpart cs then Some (int (digits_nat cs)) else None)
          else if c = CHR ''-'' then (if digitpart cs then Some (- int (digits_nat cs)) else None)
          else if digitpart s then Some (int (digits_nat s))
          else None)"

definition scale10 :: "nat \<Rightarrow> int \<Rightarrow> rat" where
  "scale10 m e = (if 0 \<le> e then of_nat m * 10 ^ nat e else of_nat m / 10 ^ nat (- e))"

text \<open>An unsigned \<open>floatnumber\<close>, in lower case: the mantissa up to the first \<open>e\<close>, split at
  its first point into the integer digits \<open>ip\<close> and the fraction digits \<open>fp\<close>.\<close>

definition parse_number :: "string \<Rightarrow> rat option" where
  "parse_number s =
     (let mant = takeWhile (\<lambda>c. c \<noteq> CHR ''e'') s;
          expo = dropWhile (\<lambda>c. c \<noteq> CHR ''e'') s;
          ip = takeWhile (\<lambda>c. c \<noteq> CHR ''.'') mant;
          dot = dropWhile (\<lambda>c. c \<noteq> CHR ''.'') mant;
          fp = tl dot;
          mant_ok = (if dot = [] then digitpart ip
                     else (fp = [] \<and> digitpart ip) \<or> (digitpart fp \<and> (ip = [] \<or> digitpart ip)));
          e = (if expo = [] then Some 0 else parse_exponent (tl expo))
      in if mant_ok
         then (case e of
                 None \<Rightarrow> None
               | Some k \<Rightarrow> Some (scale10 (digits_nat (ip @ fp)) (k - int (length (filter is_digit fp)))))
         else None)"

definition py_float :: "string \<Rightarrow> pyfloat option" where
  "py_float s =
     (let t = py_lower (py_strip s);
          neg = starts_with t ''-'';
          r = (if starts_with t ''-'' \<or> starts_with t ''+'' then tl t else t)
      in if t = [] then None
         else if r = ''inf'' \<or> r = ''infinity'' then Some (if neg then NInf else PInf)
         else if r = ''nan'' then Some NaN
         else (case parse_number r of
                 None \<Rightarrow> None
               | Some q \<Rightarrow> Some (Fin (if neg then - q else q))))"

section \<open>Python values\<close>

text \<open>What \<open>json.loads\<close> and \<open>csv.DictReader\<close> hand to the program: \<open>None\<close>, booleans,
  integers, floats, strings, lists, and dictionaries in insertion order.\<close>

datatype pyval =
    VNone
  | VBool bool
  | VInt int
  | VFloat pyfloat
  | VStr string
  | VList "pyval list"
  | VDict "(string \<times> pyval) list"

section \<open>make\_map.py: numeric coercion\<close>

text \<open>
  \<open>re.sub(r"\s*dBm?$", "", s, flags=re.IGNORECASE)\<close>. \<open>match_dbm_end t\<close> matches the
  pattern at the start of \<open>t\<close> and returns what follows the match: the white space is taken
  greedily (the next pattern character is a letter, so no shorter run can match), then
  \<open>dB\<close>, an optional \<open>m\<close>, and \<open>$\<close>, which holds at the end of the text and before a line
  feed that ends it. \<open>re_sub_dbm\<close> removes the leftmost match; what follows a match is
  empty or one line feed, so no second match exists.
\<close>

definition match_dbm_end :: "string \<Rightarrow> string option" where
  "match_dbm_end t =
     (let r = py_lower (dropWhile py_isspace t)
      in if r = ''dbm'' \<or> r = ''db'' then Some []
         else if r = ''dbm'' @ [CHR 0x0A] \<or> r = ''db'' @ [CHR 0x0A] then Some [CHR 0x0A]
         else None)"

fun re_sub_dbm :: "string \<Rightarrow> string" where
  "re_sub_dbm [] = []"
| "re_sub_dbm (c # cs) =
     (case match_dbm_end (c # cs) of
        Some rest \<Rightarrow> rest
      | None \<Rightarrow> c # re_sub_dbm cs)"

text \<open>
  \<open>coerce_float\<close>. A \<open>bool\<close> is an \<open>int\<close> in Python, so it takes the numeric branch. The text
  \<open>str(val)\<close> of a list or of a dictionary starts with a bracket or a brace, which no step
  removes and \<open>float\<close> rejects: the result is \<open>None\<close>.
\<close>

fun coerce_float :: "pyval \<Rightarrow> pyfloat option" where
  "coerce_float VNone = None"
| "coerce_float (VBool b) = Some (Fin (if b then 1 else 0))"
| "coerce_float (VInt i) = Some (Fin (of_int i))"
| "coerce_float (VFloat x) = Some x"
| "coerce_float (VStr s) =
     py_float (py_replace '','' ''.'' (re_sub_dbm (py_replace unicode_minus ''-'' (py_strip s))))"
| "coerce_float (VList xs) = None"
| "coerce_float (VDict kvs) = None"

section \<open>make\_map.py: signal extraction\<close>

text \<open>A property mapping is a Python \<open>dict\<close>: its items in insertion order, looked up by key
  with \<open>map_of\<close>.\<close>

type_synonym props = "(string \<times> pyval) list"

definition SIGNAL_KEYS :: "string list" where
  "SIGNAL_KEYS =
     [''Signal dBm'',
      ''signal_dbm'',
      ''kismet.device.base.signal.kismet.common.signal.last_signal'',
      ''kismet.device.base.signal/kismet.common.signal.last_signal'',
      ''kismet.common.signal.last_signal'',
      ''last_signal'',
      ''signal'']"

text \<open>The first loop of \<open>extract_signal_dbm\<close>, over the keys that are still to be tried.\<close>

fun flat_scan :: "string list \<Rightarrow> props \<Rightarrow> pyfloat option" where
  "flat_scan [] p = None"
| "flat_scan (k # ks) p =
     (case map_of p k of
        None \<Rightarrow> flat_scan ks p
      | Some v \<Rightarrow> (case coerce_float v of Some x \<Rightarrow> Some x | None \<Rightarrow> flat_scan ks p))"

text \<open>\<open>any(p in kk.lower() for p in ["signal", "dbm"])\<close>\<close>

definition signal_like :: "string \<Rightarrow> bool" where
  "signal_like kk = list_ex (contains (py_lower kk)) [''signal'', ''dbm'']"

text \<open>The inner loop over the items of one nested dictionary, and the outer loop over the
  items of the property mapping.\<close>

fun inner_scan :: "props \<Rightarrow> pyfloat option" where
  "inner_scan [] = None"
| "inner_scan ((kk, vv) # rest) =
     (if signal_like kk
      then (case coerce_float vv of Some c \<Rightarrow> Some c | None \<Rightarrow> inner_scan rest)
      else inner_scan rest)"

fun nested_scan :: "props \<Rightarrow> pyfloat option" where
  "nested_scan [] = None"
| "nested_scan ((k, v) # rest) =
     (case v of
        VDict d \<Rightarrow> (case inner_scan d of Some c \<Rightarrow> Some c | None \<Rightarrow> nested_scan rest)
      | _ \<Rightarrow> nested_scan rest)"

definition extract_signal_dbm :: "props \<Rightarrow> pyfloat option" where
  "extract_signal_dbm p =
     (case flat_scan SIGNAL_KEYS p of
        Some x \<Rightarrow> Some x
      | None \<Rightarrow> nested_scan p)"

section \<open>make\_map.py: the Python type heuristic\<close>

definition TYPE_KEYS :: "string list" where
  "TYPE_KEYS =
     [''type'', ''Type'', ''device_type'', ''kismet.device.base.type'',
      ''dot11.device.type'', ''kismet.device.base.typename'', ''typename'']"

text \<open>\<open>str(v)\<close>. The text of a number, a list or a dictionary is left to the parameter
  \<open>rp\<close>, Python's own rendering of such a value.\<close>

definition py_str :: "(pyval \<Rightarrow> string) \<Rightarrow> pyval \<Rightarrow> string" where
  "py_str rp v =
     (case v of
        VStr s \<Rightarrow> s
      | VNone \<Rightarrow> ''None''
      | VBool b \<Rightarrow> (if b then ''True'' else ''False'')
      | _ \<Rightarrow> rp v)"

fun py_join :: "string \<Rightarrow> string list \<Rightarrow> string" where
  "py_join sep [] = []"
| "py_join sep [x] = x"
| "py_join sep (x # y # ys) = x @ sep @ py_join sep (y # ys)"

text \<open>The truth value of a Python object.\<close>

fun py_truthy :: "pyval \<Rightarrow> bool" where
  "py_truthy VNone = False"
| "py_truthy (VBool b) = b"
| "py_truthy (VInt i) = (i \<noteq> 0)"
| "py_truthy (VFloat x) = (x \<noteq> Fin 0)"
| "py_truthy (VStr s) = (s \<noteq> [])"
| "py_truthy (VList xs) = (xs \<noteq> [])"
| "py_truthy (VDict kvs) = (kvs \<noteq> [])"

definition infer_type :: "(pyval \<Rightarrow> string) \<Rightarrow> props \<Rightarrow> string" where
  "infer_type rp p =
     (let txt = py_lower (py_join '' ''
                  (map (\<lambda>k. py_str rp (case map_of p k of Some v \<Rightarrow> v | None \<Rightarrow> VStr [])) TYPE_KEYS))
      in if list_ex (contains txt) [''bridge'', ''bridged''] then ''bridge''
         else if list_ex (contains txt) [''ap'', ''access point'', ''infrastructure'', ''base station'']
           then ''ap''
         else if list_ex (contains txt) [''client'', ''station'', ''sta'', ''phone'', ''laptop'']
           then ''client''
         else if (case map_of p ''ssid'' of Some v \<Rightarrow> py_truthy v | None \<Rightarrow> False) then ''ap''
         else ''unknown'')"

section \<open>scripts/csv\_to\_geojson.py\<close>

text \<open>
  A row of \<open>csv.DictReader\<close> maps every column of the header to the cell's text, or to
  \<open>None\<close> when the line is too short to have the cell: \<open>row k = Some (Some s)\<close>,
  \<open>row k = Some None\<close>, and \<open>row k = None\<close> for a column the header lacks.
\<close>

type_synonym csv_row = "string \<rightharpoonup> string option"

text \<open>\<open>row.get(k)\<close> and \<open>row.get(k, default)\<close>\<close>

definition row_get :: "csv_row \<Rightarrow> string \<Rightarrow> string option" where
  "row_get row k = (case row k of Some v \<Rightarrow> v | None \<Rightarrow> None)"

definition row_get_default :: "csv_row \<Rightarrow> string \<Rightarrow> string \<Rightarrow> string option" where
  "row_get_default row k d = (case row k of Some v \<Rightarrow> v | None \<Rightarrow> Some d)"

text \<open>The truth value of a cell (\<open>None\<close> and the empty text are false) and \<open>a or b\<close>.\<close>

definition cell_truthy :: "string option \<Rightarrow> bool" where
  "cell_truthy a = (case a of None \<Rightarrow> False | Some s \<Rightarrow> s \<noteq> [])"

definition cell_or :: "string option \<Rightarrow> string option \<Rightarrow> string option" where
  "cell_or a b = (if cell_truthy a then a else b)"

text \<open>\<open>to_float\<close>. The second \<open>replace\<close> of the source has the ASCII hyphen on both sides.
  The bare \<open>except\<close> clauses catch the \<open>ValueError\<close> of \<open>float\<close>.\<close>

definition to_float :: "string option \<Rightarrow> pyfloat option" where
  "to_float val =
     (case val of
        None \<Rightarrow> None
      | Some v \<Rightarrow>
          (let s = py_replace ''-'' ''-'' (py_replace ''dbm'' [] (py_lower (py_strip v)))
           in if s \<in> set [[], ''none'', ''nan'', []] then None
              else (case py_float s of
                      Some x \<Rightarrow> Some x
                    | None \<Rightarrow> py_float (py_replace '','' ''.'' s))))"

record csv_feature =
  coordinates :: "pyfloat \<times> pyfloat"
  SSID :: "string option"
  BSSID :: "string option"
  Channel :: "string option"
  Signal :: "pyfloat option"
  Encryption :: "string option"

text \<open>The latitude and the longitude that the loop body reads from a row.\<close>

definition row_lat :: "csv_row \<Rightarrow> string option" where
  "row_lat row = cell_or (row_get row ''CurrentLatitude'') (row_get row ''Latitude'')"

definition row_lon :: "csv_row \<Rightarrow> string option" where
  "row_lon row = cell_or (row_get row ''CurrentLongitude'') (row_get row ''Longitude'')"

text \<open>\<open>abs(x) < 1e-4\<close>\<close>

definition near_zero :: "pyfloat \<Rightarrow> bool" where
  "near_zero x = float_lt (float_abs x) (Fin (1 / 10000))"

text \<open>The body of the row loop: \<open>None\<close> is a \<open>continue\<close>, \<open>Some f\<close> the feature appended.\<close>

definition row_feature :: "csv_row \<Rightarrow> csv_feature option" where
  "row_feature row =
     (let lat = row_lat row;
          lon = row_lon row
      in if \<not> cell_truthy lat \<or> \<not> cell_truthy lon then None
         else (case py_float (the lat) of
                 None \<Rightarrow> None
               | Some la \<Rightarrow>
                   (case py_float (the lon) of
                      None \<Rightarrow> None
                    | Some lo \<Rightarrow>
                        if near_zero la \<and> near_zero lo then None
                        else Some \<lparr>coordinates = (lo, la),
                                   SSID = row_get_default row ''SSID'' ''hidden'',
                                   BSSID = row_get_default row ''MAC'' [],
                                   Channel = row_get_default row ''Channel'' [],
                                   Signal = to_float (row_get row ''RSSI''),
                                   Encryption = row_get_default row ''AuthMode'' []\<rparr>)))"

text \<open>The loop over the rows, with the list \<open>features\<close> it appends to; the script reports
  the length of the result.\<close>

fun csv_loop :: "csv_row list \<Rightarrow> csv_feature list \<Rightarrow> csv_feature list" where
  "csv_loop [] features = features"
| "csv_loop (row # rows) features =
     (case row_feature row of
        None \<Rightarrow> csv_loop rows features
      | Some f \<Rightarrow> csv_loop rows (features @ [f]))"

definition csv_to_geojson :: "csv_row list \<Rightarrow> csv_feature list" where
  "csv_to_geojson rows = csv_loop rows []"

section \<open>scripts/parse\_netxml.py\<close>

text \<open>An element of \<open>xml.etree.ElementTree\<close>: tag, attributes, the text before its first
  child (\<open>None\<close> when there is none) and the child elements.\<close>

datatype xml = Element (tag: string) (attrib: "(string \<times> string) list")
  (elem_text: "string option") (children: "xml list")

text \<open>\<open>findall("a")\<close>, \<open>find("a")\<close> and \<open>find("a/b")\<close>: the children with tag \<open>a\<close>, the first
  of them, and the first child \<open>b\<close> of any child \<open>a\<close> in document order.\<close>

definition findall :: "xml \<Rightarrow> string \<Rightarrow> xml list" where
  "findall e a = filter (\<lambda>c. tag c = a) (children e)"

definition find1 :: "xml \<Rightarrow> string \<Rightarrow> xml option" where
  "find1 e a = (case findall e a of [] \<Rightarrow> None | x # xs \<Rightarrow> Some x)"

definition find2 :: "xml \<Rightarrow> string \<Rightarrow> string \<Rightarrow> xml option" where
  "find2 e a b =
     (case concat (map (\<lambda>c. findall c b) (findall e a)) of [] \<Rightarrow> None | x # xs \<Rightarrow> Some x)"

datatype py_error = AttributeError

record net_row =
  r_ssid :: string
  r_bssid :: string
  r_enc :: string
  r_chan :: "string option"
  r_lat :: "string option"
  r_lon :: "string option"
  r_rssi :: "string option"

record net_feature =
  f_coordinates :: "pyfloat \<times> pyfloat"
  f_ssid :: string
  f_bssid :: string
  f_enc :: string
  f_chan :: "string option"
  f_signal :: "string option"

text \<open>\<open>(el.text if el is not None else d)\<close> followed by a method call of \<open>str\<close>: the call
  raises \<open>AttributeError\<close> when the element is there and its text is \<open>None\<close>.\<close>

definition text_or :: "xml option \<Rightarrow> string \<Rightarrow> py_error + string" where
  "text_or el d =
     (case el of
        None \<Rightarrow> Inr d
      | Some e \<Rightarrow> (case elem_text e of None \<Rightarrow> Inl AttributeError | Some s \<Rightarrow> Inr s))"

text \<open>\<open>el.text if el is not None else d\<close>, with no method call.\<close>

definition text_opt :: "xml option \<Rightarrow> string option \<Rightarrow> string option" where
  "text_opt el d = (case el of None \<Rightarrow> d | Some e \<Rightarrow> elem_text e)"

text \<open>One pass of the loop body for the record \<open>net\<close>: the row appended, and the feature
  appended if there is one. \<open>float(lon)\<close> is evaluated before \<open>float(lat)\<close>; the
  \<open>ValueError\<close> of either is caught.\<close>

definition parse_net :: "xml \<Rightarrow> py_error + (net_row \<times> net_feature option)" where
  "parse_net net =
     (let bssid = (case map_of (attrib net) ''BSSID'' of
                     None \<Rightarrow> ''unknown''
                   | Some b \<Rightarrow> if b = [] then ''unknown'' else b)
      in case text_or (find2 net ''SSID'' ''essid'') ''hidden'' of
           Inl err \<Rightarrow> Inl err
         | Inr s \<Rightarrow>
             (let ssid = (if py_strip s = [] then ''hidden'' else py_strip s)
              in case text_or (find2 net ''SSID'' ''encryption'') ''unknown'' of
                   Inl err \<Rightarrow> Inl err
                 | Inr en \<Rightarrow>
                     (let enc = py_upper en;
                          chan = text_opt (find1 net ''channel'') (Some []);
                          rssi = text_opt (find2 net ''snr-info'' ''last_signal_dbm'') (Some []);
                          lat = text_opt (find2 net ''gps-info'' ''avg-lat'') None;
                          lon = text_opt (find2 net ''gps-info'' ''avg-lon'') None;
                          row = \<lparr>r_ssid = ssid, r_bssid = bssid, r_enc = enc,
                                 r_chan = chan, r_lat = lat, r_lon = lon, r_rssi = rssi\<rparr>
                      in if cell_truthy lat \<and> cell_truthy lon
                         then (case py_float (the lon) of
                                 None \<Rightarrow> Inr (row, None)
                               | Some lo \<Rightarrow>
                                   (case py_float (the lat) of
                                      None \<Rightarrow> Inr (row, None)
                                    | Some la \<Rightarrow>
                                        Inr (row, Some \<lparr>f_coordinates = (lo, la), f_ssid = ssid,
                                                         f_bssid = bssid, f_enc = enc,
                                                         f_chan = chan, f_signal = rssi\<rparr>)))
                         else Inr (row, None))))"

text \<open>The loop over the records with the two lists it appends to. An exception leaves the
  loop and the function: nothing is returned for the file.\<close>

fun net_loop ::
  "xml list \<Rightarrow> net_row list \<Rightarrow> net_feature list \<Rightarrow> py_error + (net_row list \<times> net_feature list)"
where
  "net_loop [] rows features = Inr (rows, features)"
| "net_loop (net # nets) rows features =
     (case parse_net net of
        Inl err \<Rightarrow> Inl err
      | Inr (row, None) \<Rightarrow> net_loop nets (rows @ [row]) features
      | Inr (row, Some f) \<Rightarrow> net_loop nets (rows @ [row]) (features @ [f]))"

definition parse_netxml :: "xml \<Rightarrow> py_error + (net_row list \<times> net_feature list)" where
  "parse_netxml doc = net_loop (findall doc ''wireless-network'') [] []"

section \<open>make\_map.py: the script of the rendered page\<close>

text \<open>
  The values of the embedded GeoJSON, as JavaScript reads them. \<open>JUndefined\<close> is what
  \<open>props[k]\<close> gives for a key the object lacks. A number is a binary64 float.
\<close>

datatype jsval =
    JUndefined
  | JNull
  | JBool bool
  | JNum pyfloat
  | JStr string
  | JArr "jsval list"
  | JObj "(string \<times> jsval) list"

type_synonym jsprops = "(string \<times> jsval) list"

definition js_get :: "jsprops \<Rightarrow> string \<Rightarrow> jsval" where
  "js_get p k = (case map_of p k of Some v \<Rightarrow> v | None \<Rightarrow> JUndefined)"

fun js_truthy :: "jsval \<Rightarrow> bool" where
  "js_truthy JUndefined = False"
| "js_truthy JNull = False"
| "js_truthy (JBool b) = b"
| "js_truthy (JNum x) = (x \<noteq> Fin 0 \<and> x \<noteq> NaN)"
| "js_truthy (JStr s) = (s \<noteq> [])"
| "js_truthy (JArr xs) = True"
| "js_truthy (JObj kvs) = True"

text \<open>\<open>a || b\<close>\<close>

definition js_or :: "jsval \<Rightarrow> jsval \<Rightarrow> jsval" where
  "js_or a b = (if js_truthy a then a else b)"

text \<open>
  The conversion of a value to a string, which \<open>toString()\<close> and \<open>join\<close> apply. The digits
  of a number are left to the parameter \<open>nts\<close>, JavaScript's own number-to-string
  conversion. \<open>join\<close> writes nothing for an element that is \<open>null\<close> or \<open>undefined\<close>.
\<close>

fun js_string :: "(pyfloat \<Rightarrow> string) \<Rightarrow> jsval \<Rightarrow> string"
  and js_join :: "(pyfloat \<Rightarrow> string) \<Rightarrow> string \<Rightarrow> jsval list \<Rightarrow> string"
  and js_elem :: "(pyfloat \<Rightarrow> string) \<Rightarrow> jsval \<Rightarrow> string"
where
  "js_string nts JUndefined = ''undefined''"
| "js_string nts JNull = ''null''"
| "js_string nts (JBool b) = (if b then ''true'' else ''false'')"
| "js_string nts (JNum x) = nts x"
| "js_string nts (JStr s) = s"
| "js_string nts (JArr xs) = js_join nts '','' xs"
| "js_string nts (JObj kvs) = ''[object Object]''"
| "js_join nts sep [] = []"
| "js_join nts sep [x] = js_elem nts x"
| "js_join nts sep (x # y # ys) = js_elem nts x @ sep @ js_join nts sep (y # ys)"
| "js_elem nts JUndefined = []"
| "js_elem nts JNull = []"
| "js_elem nts (JBool b) = js_string nts (JBool b)"
| "js_elem nts (JNum x) = js_string nts (JNum x)"
| "js_elem nts (JStr s) = js_string nts (JStr s)"
| "js_elem nts (JArr xs) = js_string nts (JArr xs)"
| "js_elem nts (JObj kvs) = js_string nts (JObj kvs)"

text \<open>The white space that \<open>trim()\<close> removes, on the ASCII range: TAB, LF, VT, FF, CR and
  the space.\<close>

definition js_isspace :: "char \<Rightarrow> bool" where
  "js_isspace c = (c \<in> set [CHR 0x09, CHR 0x0A, CHR 0x0B, CHR 0x0C, CHR 0x0D, CHR '' ''])"

definition js_trim :: "string \<Rightarrow> string" where
  "js_trim s = rev (dropWhile js_isspace (rev (dropWhile js_isspace s)))"

definition js_lower :: "string \<Rightarrow> string" where
  "js_lower s = map lower_char s"

subsection \<open>The regular expressions of \<open>inferType\<close>\<close>

text \<open>
  Each expression is a list of alternatives; an alternative is a literal with an optional
  word boundary \<open>\b\<close> before and after it. A word character is an ASCII letter, a digit or
  the underscore; a boundary lies between a word character and a neighbour that is none
  (or the end of the text). \<open>re_test\<close> is \<open>RegExp.test\<close>: some alternative matches at some
  position. It walks the text with the character before the position.
\<close>

definition is_word_char :: "char \<Rightarrow> bool" where
  "is_word_char c =
     (c \<in> set ''abcdefghijklmnopqrstuvwxyzABCDEFGHIJKLMNOPQRSTUVWXYZ0123456789_'')"

definition word_at :: "char option \<Rightarrow> bool" where
  "word_at c = (case c of None \<Rightarrow> False | Some x \<Rightarrow> is_word_char x)"

definition boundary :: "char option \<Rightarrow> char option \<Rightarrow> bool" where
  "boundary a b = (word_at a \<noteq> word_at b)"

definition first_char :: "string \<Rightarrow> char option" where
  "first_char s = (case s of [] \<Rightarrow> None | c # cs \<Rightarrow> Some c)"

definition last_char :: "char option \<Rightarrow> string \<Rightarrow> char option" where
  "last_char prev s = (if s = [] then prev else Some (last s))"

type_synonym alternative = "bool \<times> string \<times> bool"

definition alt_at :: "char option \<Rightarrow> string \<Rightarrow> alternative \<Rightarrow> bool" where
  "alt_at prev s a =
     (case a of
        (lb, lit, rb) \<Rightarrow>
          starts_with s lit \<and>
          (if lb then boundary prev (first_char s) else True) \<and>
          (if rb then boundary (last_char prev lit) (first_char (drop (length lit) s)) else True))"

fun re_walk :: "alternative list \<Rightarrow> char option \<Rightarrow> string \<Rightarrow> bool" where
  "re_walk alts prev [] = list_ex (alt_at prev []) alts"
| "re_walk alts prev (c # cs) = (list_ex (alt_at prev (c # cs)) alts \<or> re_walk alts (Some c) cs)"

definition re_test :: "alternative list \<Rightarrow> string \<Rightarrow> bool" where
  "re_test alts s = re_walk alts None s"

text \<open>\<^verbatim>\<open>/\bbridge|bridged\b/\<close>, \<^verbatim>\<open>/\bclient|station|\bsta\b/\<close> and \<^verbatim>\<open>/\bwifi\b/\<close>\<close>

definition RE_BRIDGE :: "alternative list" where
  "RE_BRIDGE = [(True, ''bridge'', False), (False, ''bridged'', True)]"

definition RE_CLIENT :: "alternative list" where
  "RE_CLIENT = [(True, ''client'', False), (False, ''station'', False), (True, ''sta'', True)]"

definition RE_WIFI :: "alternative list" where
  "RE_WIFI = [(True, ''wifi'', True)]"

subsection \<open>\<open>inferType\<close>\<close>

definition inferType :: "(pyfloat \<Rightarrow> string) \<Rightarrow> jsprops \<Rightarrow> string" where
  "inferType nts p =
     (let raw = js_lower (js_join nts '' '' (map (\<lambda>k. js_or (js_get p k) (JStr [])) TYPE_KEYS));
          explicit = js_lower (js_trim (js_string nts
                       (js_or (js_get p ''Type'') (js_or (js_get p ''type'') (JStr [])))));
          hasSsid = js_truthy (js_or (js_get p ''SSID'')
                       (js_or (js_get p ''ssid'') (js_get p ''dot11.device.ssid'')));
          hasChan = js_truthy (js_or (js_get p ''Channel'')
                       (js_or (js_get p ''channel'') (js_get p ''kismet.device.base.channel'')));
          enc = js_lower (js_string nts
                  (js_or (js_get p ''Encryption'') (js_or (js_get p ''encryption'') (JStr []))))
      in if explicit = ''client'' then ''client''
         else if explicit = ''ap'' \<or> explicit = ''access point'' then ''ap''
         else if explicit = ''bridge'' then ''bridge''
         else if re_test RE_BRIDGE raw then ''bridge''
         else if re_test RE_CLIENT raw then ''client''
         else if re_test RE_WIFI raw then ''ap''
         else if hasSsid \<and> hasChan then ''ap''
         else if enc \<noteq> [] \<and> enc \<noteq> ''unknown'' \<and> enc \<noteq> ''open'' then ''ap''
         else ''unknown'')"

subsection \<open>The filter\<close>

text \<open>
  An item of \<open>items\<close> with the fields the filter reads: the feature's properties, the
  signal cached by \<open>extractSignal\<close> (\<open>None\<close> is \<open>null\<close>) and the type cached by
  \<open>inferType\<close>. The state of the filter panel: the four check boxes with their values, the
  number that \<open>parseFloat\<close> reads from the value of the slider, and the value of the
  search field.
\<close>

record item =
  it_props :: jsprops
  it_signal :: "pyfloat option"
  it_type :: string

record panel =
  type_boxes :: "(string \<times> bool) list"
  minsig :: pyfloat
  ssidq :: string

text \<open>\<open>activeTypes()\<close>: the values of the checked boxes; \<open>ssidQuery()\<close>.\<close>

definition activeTypes :: "panel \<Rightarrow> string list" where
  "activeTypes st = map fst (filter snd (type_boxes st))"

definition ssidQuery :: "panel \<Rightarrow> string" where
  "ssidQuery st = js_lower (js_trim (ssidq st))"

definition passesFilters :: "(pyfloat \<Rightarrow> string) \<Rightarrow> panel \<Rightarrow> item \<Rightarrow> bool" where
  "passesFilters nts st it =
     (if it_type it \<notin> set (activeTypes st) then False
      else if is_finite (minsig st) \<and>
              (case it_signal it of None \<Rightarrow> False | Some s \<Rightarrow> float_lt s (minsig st))
        then False
      else (let q = ssidQuery st
            in if q \<noteq> []
               then contains
                      (js_lower (js_string nts
                         (js_or (js_get (it_props it) ''SSID'')
                            (js_or (js_get (it_props it) ''ssid'')
                               (js_or (js_get (it_props it) ''dot11.device.ssid'') (JStr []))))))
                      q
               else True))"

text \<open>The count \<open>shown\<close> that \<open>refresh()\<close> writes into the pill: the items that pass.\<close>

definition shown :: "(pyfloat \<Rightarrow> string) \<Rightarrow> panel \<Rightarrow> item list \<Rightarrow> nat" where
  "shown nts st items = length (filter (passesFilters nts st) items)"

section \<open>Evaluation rules\<close>

lemmas str_defs =
  py_strip_def py_lstrip_def py_rstrip_def py_lower_def py_upper_def py_isspace_def
  lower_char_def upper_char_def starts_with_def unicode_minus_def match_dbm_end_def

lemmas flt_defs =
  py_float_def parse_number_def parse_exponent_def scale10_def digits_nat_def
  is_digit_def digit_val_def

lemmas csv_defs =
  csv_to_geojson_def row_feature_def row_lat_def row_lon_def near_zero_def row_get_def
  row_get_default_def cell_or_def cell_truthy_def to_float_def

lemmas net_defs =
  parse_netxml_def parse_net_def findall_def find1_def find2_def text_or_def text_opt_def
  cell_truthy_def

lemmas js_defs =
  passesFilters_def shown_def activeTypes_def ssidQuery_def js_lower_def js_trim_def
  js_isspace_def js_get_def js_or_def is_finite_def lower_char_def starts_with_def

section \<open>The numeric coercion on the documented examples\<close>

text \<open>
  Claim C6. \<open>coerce_float\<close> maps the text "U+2212 ,75 dBm" (Unicode minus, decimal comma,
  unit) to -0.75 and "U+2212 75 dBm" to -75.0, and maps the text "n/a", which is no
  number, to \<open>None\<close> instead of raising an error.
\<close>

theorem coerce_float_examples:
  "coerce_float (VStr (unicode_minus @ '',75 dBm'')) = Some (Fin (- 3 / 4)) \<and>
   coerce_float (VStr (unicode_minus @ ''75 dBm'')) = Some (Fin (- 75)) \<and>
   coerce_float (VStr ''n/a'') = None"
  by (simp add: str_defs flt_defs)

section \<open>The Python type heuristic has no rule for the explicit field\<close>

text \<open>
  Claim C1. An explicit type field that matches "client", "ap" or "bridge" decides the
  category whatever the other fields hold. \<open>infer_type\<close> of make\_map.py joins all
  type-like fields and looks for "bridge" first: with \<open>type = "client"\<close> and
  \<open>device_type = "bridge"\<close> it answers "bridge", not "client".
\<close>

theorem infer_type_explicit_overridden:
  "infer_type rp [(''type'', VStr ''client''), (''device_type'', VStr ''bridge'')] = ''bridge''"
  by (simp add: infer_type_def TYPE_KEYS_def py_str_def str_defs)

section \<open>The CSV ingest keeps a blank SSID\<close>

text \<open>
  Claim C2. A row with a blank SSID gives a feature whose SSID is "hidden". On the row
  \<open>CurrentLatitude = 47.5\<close>, \<open>CurrentLongitude = 19.0\<close>, \<open>RSSI = "-67dbm"\<close>, \<open>SSID = ""\<close> the
  script gives one feature with the coordinates [19.0, 47.5] and the signal -67.0, but its
  SSID is the empty text: \<open>row.get("SSID", "hidden")\<close> takes the default only for a
  column that the header lacks.
\<close>

theorem csv_blank_ssid_kept:
  "csv_to_geojson
     [[''CurrentLatitude'' \<mapsto> Some ''47.5'', ''CurrentLongitude'' \<mapsto> Some ''19.0'',
       ''RSSI'' \<mapsto> Some ''-67dbm'', ''SSID'' \<mapsto> Some []]]
   = [\<lparr>coordinates = (Fin 19, Fin (95 / 2)), SSID = Some [], BSSID = Some [],
        Channel = Some [], Signal = Some (Fin (- 67)), Encryption = Some []\<rparr>]"
  by (simp add: csv_defs str_defs flt_defs)

section \<open>The signal extractor returns a NaN\<close>

text \<open>
  Claim C4. The signal extractor returns \<open>None\<close> or a finite float, never a NaN or an
  infinity. \<open>float("nan")\<close> is a NaN and \<open>coerce_float\<close> hands it on: for the mapping
  \<open>{"signal": "nan"}\<close> the extractor returns a NaN.
\<close>

theorem extract_signal_dbm_nan:
  "extract_signal_dbm [(''signal'', VStr ''nan'')] = Some NaN"
  by (simp add: extract_signal_dbm_def SIGNAL_KEYS_def str_defs flt_defs)

section \<open>The netxml ingest stops at an empty essid element\<close>

text \<open>
  Claim C8. Every record of a document gets its row, and a record that gives no feature
  does not stop the batch. In the document below the first record is complete and the
  second has an essid element without text: \<open>parse_netxml\<close> raises \<open>AttributeError\<close> and
  returns neither the row of the second record nor that of the first.
\<close>

theorem parse_netxml_empty_essid_aborts:
  "parse_netxml (Element ''detection-run'' [] None
      [Element ''wireless-network'' [(''BSSID'', ''00:11:22:33:44:55'')] None
         [Element ''SSID'' [] None [Element ''essid'' [] (Some ''home'') []]],
       Element ''wireless-network'' [] None
         [Element ''SSID'' [] None [Element ''essid'' [] None []]]])
   = Inl AttributeError"
  by (simp add: net_defs str_defs)

section \<open>The netxml ingest is not total\<close>

lemma parse_net_essid_None:
  assumes "find2 net ''SSID'' ''essid'' = Some e" and "elem_text e = None"
  shows "parse_net net = Inl AttributeError"
  using assms by (simp add: parse_net_def text_or_def Let_def)

lemma parse_net_encryption_None:
  assumes "find2 net ''SSID'' ''encryption'' = Some e" and "elem_text e = None"
  shows "parse_net net = Inl AttributeError"
proof (cases "text_or (find2 net ''SSID'' ''essid'') ''hidden''")
  case (Inl err)
  then show ?thesis by (cases err) (simp add: parse_net_def Let_def)
next
  case (Inr s)
  with assms show ?thesis by (simp add: parse_net_def text_or_def Let_def)
qed

lemma net_loop_error:
  assumes "net \<in> set nets" and "parse_net net = Inl AttributeError"
  shows "net_loop nets rows fs = Inl AttributeError"
  using assms
proof (induction nets arbitrary: rows fs)
  case Nil
  then show ?case by simp
next
  case (Cons n nets)
  show ?case
  proof (cases "parse_net n")
    case (Inl err)
    then show ?thesis by (cases err) simp
  next
    case (Inr r)
    with Cons.prems have "net \<in> set nets" by auto
    from Cons.IH [OF this Cons.prems(2)] Inr show ?thesis
      by (cases r) (auto split: option.splits)
  qed
qed

text \<open>
  Claim C10. \<open>parse_netxml\<close> is not total over well-formed documents: when some
  wireless-network record has an essid element, or an encryption element, that is present
  but empty (its text is \<open>None\<close>), the call of \<open>strip\<close> or \<open>upper\<close> on \<open>None\<close> raises an
  \<open>AttributeError\<close> that nothing catches, and the whole file is aborted, whatever the
  other records are.
\<close>

theorem parse_netxml_not_total:
  assumes "net \<in> set (findall doc ''wireless-network'')"
    and "find2 net ''SSID'' ''essid'' = Some e \<or> find2 net ''SSID'' ''encryption'' = Some e"
    and "elem_text e = None"
  shows "parse_netxml doc = Inl AttributeError"
proof -
  from assms(2,3) have "parse_net net = Inl AttributeError"
    using parse_net_essid_None parse_net_encryption_None by blast
  with assms(1) show ?thesis
    unfolding parse_netxml_def by (rule net_loop_error)
qed

theorem parse_netxml_not_total_witness:
  "Element ''wireless-network'' [] None
      [Element ''SSID'' [] None
         [Element ''essid'' [] (Some ''cafe'') [], Element ''encryption'' [] None []]]
     \<in> set (findall
         (Element ''detection-run'' [] None
            [Element ''wireless-network'' [] None
               [Element ''SSID'' [] None
                  [Element ''essid'' [] (Some ''cafe'') [], Element ''encryption'' [] None []]]])
         ''wireless-network'') \<and>
   find2 (Element ''wireless-network'' [] None
            [Element ''SSID'' [] None
               [Element ''essid'' [] (Some ''cafe'') [], Element ''encryption'' [] None []]])
      ''SSID'' ''encryption'' = Some (Element ''encryption'' [] None []) \<and>
   elem_text (Element ''encryption'' [] None []) = None \<and>
   parse_netxml
     (Element ''detection-run'' [] None
        [Element ''wireless-network'' [] None
           [Element ''SSID'' [] None
              [Element ''essid'' [] (Some ''cafe'') [], Element ''encryption'' [] None []]]])
     = Inl AttributeError"
  using parse_netxml_not_total
    [of "Element ''wireless-network'' [] None
           [Element ''SSID'' [] None
              [Element ''essid'' [] (Some ''cafe'') [], Element ''encryption'' [] None []]]"
        "Element ''detection-run'' [] None
           [Element ''wireless-network'' [] None
              [Element ''SSID'' [] None
                 [Element ''essid'' [] (Some ''cafe'') [], Element ''encryption'' [] None []]]]"
        "Element ''encryption'' [] None []"]
  by (simp add: findall_def find2_def)

section \<open>The rows that the CSV ingest skips\<close>







section \<open>The filter of the rendered page is monotone\<close>

lemma float_lt_lower:
  assumes "float_lt s (Fin m')" and "m' \<le> m"
  shows "float_lt s (Fin m)"
  using assms by (cases s) auto

lemma length_filter_mono:
  assumes "\<And>x. P x \<Longrightarrow> Q x"
  shows "length (filter P xs) \<le> length (filter Q xs)"
  using assms by (induction xs) auto

lemma passes_mono:
  assumes types: "set (activeTypes st) \<subseteq> set (activeTypes st')"
    and sig: "minsig st' = minsig st \<or>
              (\<exists>m m'. minsig st = Fin m \<and> minsig st' = Fin m' \<and> m' \<le> m)"
    and q: "ssidq st' = ssidq st"
    and p: "passesFilters nts st it"
  shows "passesFilters nts st' it"
proof -
  from p have t: "it_type it \<in> set (activeTypes st)"
    by (auto simp: passesFilters_def split: if_splits)
  with types have t': "it_type it \<in> set (activeTypes st')"
    by auto
  from p have s: "\<not> (is_finite (minsig st) \<and>
      (case it_signal it of None \<Rightarrow> False | Some s \<Rightarrow> float_lt s (minsig st)))"
    by (auto simp: passesFilters_def split: if_splits)
  have s': "\<not> (is_finite (minsig st') \<and>
      (case it_signal it of None \<Rightarrow> False | Some s \<Rightarrow> float_lt s (minsig st')))"
  proof (cases "minsig st' = minsig st")
    case True
    show ?thesis unfolding True by (rule s)
  next
    case False
    with sig obtain m m' where "minsig st = Fin m" "minsig st' = Fin m'" "m' \<le> m" by blast
    with s show ?thesis
      by (auto simp: is_finite_def split: option.splits dest: float_lt_lower)
  qed
  from q have "ssidQuery st' = ssidQuery st" by (simp add: ssidQuery_def)
  with p t' s' s show ?thesis
    by (auto simp: passesFilters_def Let_def split: if_splits)
qed

text \<open>
  Claim C9. Let two states of the filter panel differ only in that the second has a
  wider set of active device types or a lower minimum signal (the slider gives finite
  numbers), with the same search text. Then every item that passes the first state passes
  the second, and for every list of items the count of passing items of the first state
  is at most that of the second: widening never decreases the count, narrowing never
  increases it.
\<close>

theorem filter_monotone:
  assumes "set (activeTypes st) \<subseteq> set (activeTypes st')"
    and "minsig st' = minsig st \<or>
         (\<exists>m m'. minsig st = Fin m \<and> minsig st' = Fin m' \<and> m' \<le> m)"
    and "ssidq st' = ssidq st"
  shows "(passesFilters nts st it \<longrightarrow> passesFilters nts st' it) \<and>
         shown nts st items \<le> shown nts st' items"
proof
  show "passesFilters nts st it \<longrightarrow> passesFilters nts st' it"
    using passes_mono [OF assms] by blast
  show "shown nts st items \<le> shown nts st' items"
    unfolding shown_def by (rule length_filter_mono) (rule passes_mono [OF assms])
qed

theorem filter_monotone_witness:
  "set (activeTypes \<lparr>type_boxes = [(''ap'', True), (''client'', False), (''bridge'', True), (''unknown'', True)],
                    minsig = Fin (- 60), ssidq = ''edu''\<rparr>)
     \<subseteq> set (activeTypes \<lparr>type_boxes = [(''ap'', True), (''client'', True), (''bridge'', True), (''unknown'', True)],
                    minsig = Fin (- 120), ssidq = ''edu''\<rparr>) \<and>
   (- 120 :: rat) \<le> - 60 \<and>
   passesFilters (\<lambda>x. ''0'')
     \<lparr>type_boxes = [(''ap'', True), (''client'', False), (''bridge'', True), (''unknown'', True)],
      minsig = Fin (- 60), ssidq = ''edu''\<rparr>
     \<lparr>it_props = [(''SSID'', JStr ''eduroam'')], it_signal = Some (Fin (- 50)), it_type = ''ap''\<rparr> \<and>
   passesFilters (\<lambda>x. ''0'')
     \<lparr>type_boxes = [(''ap'', True), (''client'', True), (''bridge'', True), (''unknown'', True)],
      minsig = Fin (- 120), ssidq = ''edu''\<rparr>
     \<lparr>it_props = [(''SSID'', JStr ''eduroam'')], it_signal = Some (Fin (- 50)), it_type = ''ap''\<rparr> \<and>
   shown (\<lambda>x. ''0'')
     \<lparr>type_boxes = [(''ap'', True), (''client'', False), (''bridge'', True), (''unknown'', True)],
      minsig = Fin (- 60), ssidq = ''edu''\<rparr>
     [\<lparr>it_props = [(''SSID'', JStr ''eduroam'')], it_signal = Some (Fin (- 50)), it_type = ''ap''\<rparr>,
      \<lparr>it_props = [(''SSID'', JStr ''Eduroam'')], it_signal = Some (Fin (- 65)), it_type = ''client''\<rparr>]
   \<le> shown (\<lambda>x. ''0'')
     \<lparr>type_boxes = [(''ap'', True), (''client'', True), (''bridge'', True), (''unknown'', True)],
      minsig = Fin (- 120), ssidq = ''edu''\<rparr>
     [\<lparr>it_props = [(''SSID'', JStr ''eduroam'')], it_signal = Some (Fin (- 50)), it_type = ''ap''\<rparr>,
      \<lparr>it_props = [(''SSID'', JStr ''Eduroam'')], it_signal = Some (Fin (- 65)), it_type = ''client''\<rparr>]"
proof -
  have a: "set (activeTypes \<lparr>type_boxes = [(''ap'', True), (''client'', False), (''bridge'', True), (''unknown'', True)],
                    minsig = Fin (- 60), ssidq = ''edu''\<rparr>)
     \<subseteq> set (activeTypes \<lparr>type_boxes = [(''ap'', True), (''client'', True), (''bridge'', True), (''unknown'', True)],
                    minsig = Fin (- 120), ssidq = ''edu''\<rparr>)"
    by (simp add: activeTypes_def)
  have p: "passesFilters (\<lambda>x. ''0'')
     \<lparr>type_boxes = [(''ap'', True), (''client'', False), (''bridge'', True), (''unknown'', True)],
      minsig = Fin (- 60), ssidq = ''edu''\<rparr>
     \<lparr>it_props = [(''SSID'', JStr ''eduroam'')], it_signal = Some (Fin (- 50)), it_type = ''ap''\<rparr>"
    by (simp add: js_defs)
  show ?thesis
    using a p
      filter_monotone [OF a, of "(\<lambda>x. ''0'')"
        "\<lparr>it_props = [(''SSID'', JStr ''eduroam'')], it_signal = Some (Fin (- 50)), it_type = ''ap''\<rparr>"
        "[\<lparr>it_props = [(''SSID'', JStr ''eduroam'')], it_signal = Some (Fin (- 50)), it_type = ''ap''\<rparr>,
      \<lparr>it_props = [(''SSID'', JStr ''Eduroam'')], it_signal = Some (Fin (- 65)), it_type = ''client''\<rparr>]"]
    by simp
qed

section \<open>The ranked keys of the signal extractor\<close>
















section \<open>The coercion of the CSV ingest against that of the map builder\<close>

subsection \<open>Letter case and replacement\<close>

lemma isspace_lower [simp]: "py_isspace (lower_char c) = py_isspace c"
  by (auto simp add: lower_char_def py_isspace_def)

lemma lower_char_idem [simp]: "lower_char (lower_char c) = lower_char c"
  by (simp add: lower_char_def)



lemma lower_char_point [simp]: "lower_char (CHR ''.'') = CHR ''.''"
  by (simp add: lower_char_def)





lemma py_lower_idem [simp]: "py_lower (py_lower s) = py_lower s"
  by (simp add: py_lower_def)








lemma py_replace_char: "py_replace [a] [b] s = map (\<lambda>c. if c = a then b else c) s"
  by (induction s) (auto simp: starts_with_def)


subsection \<open>Stripping\<close>











subsection \<open>The unit pattern\<close>






subsection \<open>The decimal comma\<close>

lemma replace_comma: "py_replace '','' ''.'' s = map comma_point s"
  by (simp add: py_replace_char comma_point_def)

lemma isspace_comma_point: "py_isspace (comma_point c) = py_isspace c"
  by (simp add: comma_point_def py_isspace_def)

lemma isspace_o_comma_point: "py_isspace \<circ> comma_point = py_isspace"
  by (rule ext) (simp add: isspace_comma_point)



lemma comma_lstrip: "py_replace '','' ''.'' (py_lstrip s) = py_lstrip (py_replace '','' ''.'' s)"
  by (simp add: replace_comma py_lstrip_def dropWhile_map isspace_o_comma_point)

lemma comma_rstrip: "py_replace '','' ''.'' (py_rstrip s) = py_rstrip (py_replace '','' ''.'' s)"
  by (simp add: replace_comma py_rstrip_def dropWhile_map isspace_o_comma_point rev_map)

lemma comma_strip: "py_replace '','' ''.'' (py_strip s) = py_strip (py_replace '','' ''.'' s)"
  by (simp add: py_strip_def comma_lstrip comma_rstrip)


subsection \<open>The built-in float\<close>











subsection \<open>The two coercions\<close>










section \<open>The explicit field in the script of the rendered page\<close>

lemma js_isspace_lower: "js_isspace (lower_char c) = js_isspace c"
  by (auto simp add: lower_char_def js_isspace_def)

lemma js_lower_trim: "js_lower (js_trim s) = js_trim (js_lower s)"
proof -
  have "js_isspace \<circ> lower_char = js_isspace"
    by (rule ext) (simp add: js_isspace_lower)
  then show ?thesis
    by (simp add: js_lower_def js_trim_def dropWhile_map rev_map)
qed

text \<open>
  \<open>inferType\<close>, the classifier that the rendered page runs, tests the explicit field
  before every heuristic: when \<open>Type\<close> (or \<open>type\<close>, if \<open>Type\<close> is missing or empty) is
  a text that equals "client", "ap", "access point" or "bridge" without regard to case,
  that category is the answer, whatever the other properties are.
\<close>

lemma inferType_explicit_first:
  assumes e: "js_or (js_get p ''Type'') (js_or (js_get p ''type'') (JStr [])) = JStr v"
    and c: "js_lower v = c"
  shows "(c = ''client'' \<longrightarrow> inferType nts p = ''client'') \<and>
         (c = ''ap'' \<or> c = ''access point'' \<longrightarrow> inferType nts p = ''ap'') \<and>
         (c = ''bridge'' \<longrightarrow> inferType nts p = ''bridge'')"
proof -
  have x: "js_lower (js_trim (js_string nts
      (js_or (js_get p ''Type'') (js_or (js_get p ''type'') (JStr []))))) = js_trim c"
    by (simp add: e js_lower_trim c)
  have t: "js_trim ''client'' = ''client''" "js_trim ''ap'' = ''ap''"
    "js_trim ''access point'' = ''access point''" "js_trim ''bridge'' = ''bridge''"
    by (simp_all add: js_trim_def js_isspace_def)
  show ?thesis
    unfolding inferType_def Let_def x by (auto simp: t)
qed

lemma inferType_explicit_first_example:
  "inferType nts [(''Type'', JStr ''Client''), (''typename'', JStr ''bridge''),
                  (''SSID'', JStr ''x''), (''Channel'', JStr ''6'')] = ''client''"
  using inferType_explicit_first
    [of "[(''Type'', JStr ''Client''), (''typename'', JStr ''bridge''),
          (''SSID'', JStr ''x''), (''Channel'', JStr ''6'')]" "''Client''" "''client''" nts]
  by (simp add: js_get_def js_or_def js_lower_def lower_char_def)

end
